theory Spec2Isabelle
  imports Main "HOL-Library.Word" "HOL-Library.Sublist" "HOL-Library.Char_ord"
    "HOL-Library.List_Lexorder"
begin

section \<open>The option model of \<^verbatim>\<open>vowpalwabbit/config/option.h\<close>\<close>

text \<open>
  The header declares a type-erased option descriptor \<^verbatim>\<open>base_option\<close>, the class template
  \<^verbatim>\<open>typed_option<T>\<close> for the eight supported value types, its subclass
  \<^verbatim>\<open>typed_option_with_location<T>\<close>, the visitor \<^verbatim>\<open>typed_option_visitor\<close> and the
  comparison operators. The embedding keeps the field and member names of the source.
  Mutation is explicit: a member function that changes \<^verbatim>\<open>*this\<close> returns the changed
  object, a \<^verbatim>\<open>THROW\<close> is the \<open>Inl\<close> branch of a sum.
\<close>

subsection \<open>Value types\<close>

text \<open>
  The four integer types are words of their width; the signed ones are read with \<open>sint\<close>.
  \<^verbatim>\<open>std::string\<close> is \<open>string\<close>, \<^verbatim>\<open>std::vector<std::string>\<close> a list of strings.
  The header only stores, copies and compares \<^verbatim>\<open>float\<close> values and never computes with
  them, so their carrier stays abstract. \<^verbatim>\<open>operator==\<close> on the value type is not HOL
  equality on that carrier (a NaN is not equal to itself), so the comparison of options
  below takes it as an argument.
\<close>

type_synonym uint32_t = "32 word"
type_synonym uint64_t = "64 word"
type_synonym int32_t = "32 word"
type_synonym int64_t = "64 word"
typedecl float

subsection \<open>Library functions the header calls\<close>

text \<open>
  \<^verbatim>\<open>std::to_string\<close> on integers and the \<^verbatim>\<open>{}\<close> replacement field of \<^verbatim>\<open>fmt\<close> both print
  an integer in decimal, with a leading minus sign when it is negative.
\<close>

fun to_string_nat :: "nat \<Rightarrow> string" where
  "to_string_nat n =
     (if n < 10 then [''0123456789'' ! n]
      else to_string_nat (n div 10) @ [''0123456789'' ! (n mod 10)])"

definition to_string_int :: "int \<Rightarrow> string" where
  "to_string_int i = (if i < 0 then ''-'' @ to_string_nat (nat (- i)) else to_string_nat (nat i))"

definition to_string_uint32 :: "uint32_t \<Rightarrow> string" where
  "to_string_uint32 w = to_string_nat (unat w)"

definition to_string_uint64 :: "uint64_t \<Rightarrow> string" where
  "to_string_uint64 w = to_string_nat (unat w)"

definition to_string_int32 :: "int32_t \<Rightarrow> string" where
  "to_string_int32 w = to_string_int (sint w)"

definition to_string_int64 :: "int64_t \<Rightarrow> string" where
  "to_string_int64 w = to_string_int (sint w)"

text \<open>\<^verbatim>\<open>fmt::join(range, sep)\<close>: the formatted elements with \<open>sep\<close> between neighbours.\<close>

fun join :: "string list \<Rightarrow> string \<Rightarrow> string" where
  "join [] sep = []"
| "join [x] sep = x"
| "join (x # y # ys) sep = x @ sep @ join (y # ys) sep"

text \<open>
  A \<^verbatim>\<open>std::set<T>\<close> is a finite set; iterating over it visits the elements in the order of
  \<^verbatim>\<open>std::less<T>\<close>: unsigned order on the unsigned words, two's complement order on the
  signed ones, lexicographic byte order on strings.
\<close>

definition in_order_unsigned :: "'n::len word set \<Rightarrow> 'n word list" where
  "in_order_unsigned S = sorted_list_of_set S"

definition in_order_signed :: "'n::len word set \<Rightarrow> 'n word list" where
  "in_order_signed S = map word_of_int (sorted_list_of_set (sint ` S))"

definition in_order_string :: "string set \<Rightarrow> string list" where
  "in_order_string S = sorted_list_of_set S"

subsection \<open>Failures\<close>

text \<open>\<^verbatim>\<open>THROW(msg)\<close> raises a \<^verbatim>\<open>VW::vw_exception\<close> that carries the message.\<close>

datatype vw_exception = vw_exception string

definition MissingDefault :: vw_exception where
  "MissingDefault = vw_exception
     ''typed_option does not contain default value. use default_value_supplied to check if default value exists.''"

definition MissingValue :: vw_exception where
  "MissingValue = vw_exception
     ''typed_option does not contain value. use value_supplied to check if value exists.''"

subsection \<open>The option classes\<close>

text \<open>
  \<^verbatim>\<open>m_type_hash\<close> holds \<^verbatim>\<open>typeid(T).hash_code()\<close>, a number the implementation chooses;
  the constructors take it as an argument. The two \<^verbatim>\<open>shared_ptr\<close> fields are either null
  or own a copy of a value, which is an \<open>option\<close>.
\<close>

record base_option =
  m_name :: string
  m_type_hash :: nat
  m_help :: string
  m_short_name :: string
  m_keep :: bool
  m_necessary :: bool
  m_allow_override :: bool
  m_hidden_from_help :: bool
  m_one_of_err :: string

record 'a typed_option = base_option +
  m_value :: "'a option"
  m_default_value :: "'a option"
  m_one_of :: "'a set"

text \<open>
  The external variable of a located option lives in a memory of \<^verbatim>\<open>T\<close> objects indexed by
  address; \<^verbatim>\<open>m_location\<close> is an address or the null pointer.
\<close>

type_synonym 'a memory = "nat \<Rightarrow> 'a"

record 'a typed_option_with_location = "'a typed_option" +
  m_location :: "nat option"

definition new_typed_option :: "nat \<Rightarrow> string \<Rightarrow> 'a typed_option" where
  "new_typed_option type_hash name =
     \<lparr> m_name = name, m_type_hash = type_hash, m_help = '''', m_short_name = '''',
       m_keep = False, m_necessary = False, m_allow_override = False,
       m_hidden_from_help = False, m_one_of_err = '''',
       m_value = None, m_default_value = None, m_one_of = {} \<rparr>"

definition new_typed_option_with_location ::
  "nat \<Rightarrow> string \<Rightarrow> nat \<Rightarrow> 'a typed_option_with_location" where
  "new_typed_option_with_location type_hash name location =
     \<lparr> m_name = name, m_type_hash = type_hash, m_help = '''', m_short_name = '''',
       m_keep = False, m_necessary = False, m_allow_override = False,
       m_hidden_from_help = False, m_one_of_err = '''',
       m_value = None, m_default_value = None, m_one_of = {},
       m_location = Some location \<rparr>"

definition set_default_value ::
  "('a, 'z) typed_option_scheme \<Rightarrow> 'a \<Rightarrow> ('a, 'z) typed_option_scheme" where
  "set_default_value this v = this\<lparr> m_default_value := Some v \<rparr>"

definition default_value_supplied :: "('a, 'z) typed_option_scheme \<Rightarrow> bool" where
  "default_value_supplied this = (m_default_value this \<noteq> None)"

definition default_value :: "('a, 'z) typed_option_scheme \<Rightarrow> vw_exception + 'a" where
  "default_value this =
     (case m_default_value this of Some v \<Rightarrow> Inr v | None \<Rightarrow> Inl MissingDefault)"

definition value_supplied :: "('a, 'z) typed_option_scheme \<Rightarrow> bool" where
  "value_supplied this = (m_value this \<noteq> None)"

text \<open>The accessor \<^verbatim>\<open>T value() const\<close>.\<close>

definition get_value :: "('a, 'z) typed_option_scheme \<Rightarrow> vw_exception + 'a" where
  "get_value this = (case m_value this of Some v \<Rightarrow> Inr v | None \<Rightarrow> Inl MissingValue)"

definition set_one_of ::
  "('a, 'z) typed_option_scheme \<Rightarrow> 'a set \<Rightarrow> ('a, 'z) typed_option_scheme" where
  "set_one_of this one_of_set = this\<lparr> m_one_of := one_of_set \<rparr>"

definition one_of :: "('a, 'z) typed_option_scheme \<Rightarrow> 'a set" where
  "one_of this = m_one_of this"

subsection \<open>The overloads of \<^verbatim>\<open>invalid_choice_error\<close>\<close>

text \<open>
  The member template accepts an argument of any type and returns the empty string. The
  overload for \<^verbatim>\<open>const std::string&\<close> formats the message; it is a member of
  \<^verbatim>\<open>typed_option<T>\<close>, so the set it joins is a \<^verbatim>\<open>std::set<T>\<close>, and it takes the
  formatter of \<^verbatim>\<open>T\<close> and the iteration order of the set as arguments here. The four
  integer overloads pass \<^verbatim>\<open>std::to_string(value)\<close> to it.
\<close>

definition invalid_choice_error_U :: "('a, 'z) typed_option_scheme \<Rightarrow> 'u \<Rightarrow> string" where
  "invalid_choice_error_U this v = ''''"

definition invalid_choice_error_string ::
  "('a \<Rightarrow> string) \<Rightarrow> ('a set \<Rightarrow> 'a list) \<Rightarrow> ('a, 'z) typed_option_scheme \<Rightarrow> string \<Rightarrow> string"
  where
  "invalid_choice_error_string fmt in_order this v =
     ''Error: '' @ [CHR 0x27] @ v @ [CHR 0x27] @ '' is not a valid choice for option --''
       @ m_name this @ ''. Please select from {''
       @ join (map fmt (in_order (m_one_of this))) '', '' @ ''}''"

definition invalid_choice_error_int32 ::
  "(int32_t, 'z) typed_option_scheme \<Rightarrow> int32_t \<Rightarrow> string" where
  "invalid_choice_error_int32 this v =
     invalid_choice_error_string to_string_int32 in_order_signed this (to_string_int32 v)"

definition invalid_choice_error_int64 ::
  "(int64_t, 'z) typed_option_scheme \<Rightarrow> int64_t \<Rightarrow> string" where
  "invalid_choice_error_int64 this v =
     invalid_choice_error_string to_string_int64 in_order_signed this (to_string_int64 v)"

definition invalid_choice_error_uint32 ::
  "(uint32_t, 'z) typed_option_scheme \<Rightarrow> uint32_t \<Rightarrow> string" where
  "invalid_choice_error_uint32 this v =
     invalid_choice_error_string to_string_uint32 in_order_unsigned this (to_string_uint32 v)"

definition invalid_choice_error_uint64 ::
  "(uint64_t, 'z) typed_option_scheme \<Rightarrow> uint64_t \<Rightarrow> string" where
  "invalid_choice_error_uint64 this v =
     invalid_choice_error_string to_string_uint64 in_order_unsigned this (to_string_uint64 v)"

text \<open>
  Overload resolution for the call \<^verbatim>\<open>invalid_choice_error(value)\<close> with \<^verbatim>\<open>value\<close> of type
  \<^verbatim>\<open>T\<close>: a non-template overload whose parameter type is \<^verbatim>\<open>T\<close> wins; for \<^verbatim>\<open>bool\<close>,
  \<^verbatim>\<open>float\<close> and \<^verbatim>\<open>std::vector<std::string>\<close> there is none, and the template, an exact
  match, is chosen over the integer overloads that need a conversion.
\<close>

definition invalid_choice_error_std_string ::
  "(string, 'z) typed_option_scheme \<Rightarrow> string \<Rightarrow> string" where
  "invalid_choice_error_std_string this v =
     invalid_choice_error_string (\<lambda>s. s) in_order_string this v"

definition invalid_choice_error_bool ::
  "(bool, 'z) typed_option_scheme \<Rightarrow> bool \<Rightarrow> string" where
  "invalid_choice_error_bool this v = invalid_choice_error_U this v"

definition invalid_choice_error_float ::
  "(float, 'z) typed_option_scheme \<Rightarrow> float \<Rightarrow> string" where
  "invalid_choice_error_float this v = invalid_choice_error_U this v"

definition invalid_choice_error_string_vector ::
  "(string list, 'z) typed_option_scheme \<Rightarrow> string list \<Rightarrow> string" where
  "invalid_choice_error_string_vector this v = invalid_choice_error_U this v"

subsection \<open>Assigning a value\<close>

text \<open>
  The virtual hook \<^verbatim>\<open>value_set_callback\<close> does nothing in \<^verbatim>\<open>typed_option\<close>; the
  override in \<^verbatim>\<open>typed_option_with_location\<close> stores the value at the location when the
  pointer is not null and the call comes from \<^verbatim>\<open>add_and_parse\<close>.
\<close>

definition value_set_callback ::
  "('a, 'z) typed_option_scheme \<Rightarrow> 'a \<Rightarrow> bool \<Rightarrow> 'a memory \<Rightarrow> 'a memory" where
  "value_set_callback this v called_from_add_and_parse mem = mem"

definition value_set_callback_with_location ::
  "('a, 'z) typed_option_with_location_scheme \<Rightarrow> 'a \<Rightarrow> bool \<Rightarrow> 'a memory \<Rightarrow> 'a memory"
  where
  "value_set_callback_with_location this v called_from_add_and_parse mem =
     (case m_location this of
        Some p \<Rightarrow> if called_from_add_and_parse then mem(p := v) else mem
      | None \<Rightarrow> mem)"

text \<open>
  The setter \<^verbatim>\<open>typed_option& value(T value, bool called_from_add_and_parse)\<close>. Its first
  argument is the overload of \<^verbatim>\<open>invalid_choice_error\<close> that the value type selects, its
  second the override of \<^verbatim>\<open>value_set_callback\<close> of the object's class. It returns the
  object and the memory after the call.
\<close>

definition set_value ::
  "(('a, 'z) typed_option_scheme \<Rightarrow> 'a \<Rightarrow> string) \<Rightarrow>
   (('a, 'z) typed_option_scheme \<Rightarrow> 'a \<Rightarrow> bool \<Rightarrow> 'a memory \<Rightarrow> 'a memory) \<Rightarrow>
   ('a, 'z) typed_option_scheme \<Rightarrow> 'a \<Rightarrow> bool \<Rightarrow> 'a memory \<Rightarrow>
   ('a, 'z) typed_option_scheme \<times> 'a memory" where
  "set_value invalid_choice_error callback this v called_from_add_and_parse mem =
     (let this1 = this\<lparr> m_value := Some v \<rparr>;
          mem1 = callback this1 v called_from_add_and_parse mem;
          this2 = (if m_one_of this1 \<noteq> {} \<and> v \<notin> m_one_of this1
                   then this1\<lparr> m_one_of_err := invalid_choice_error this1 v \<rparr>
                   else this1)
      in (this2, mem1))"

text \<open>
  A run of setter calls on one located option, in order; each entry is the value and the
  flag of one call.
\<close>

fun value_calls ::
  "(('a, 'z) typed_option_with_location_scheme \<Rightarrow> 'a \<Rightarrow> string) \<Rightarrow>
   ('a, 'z) typed_option_with_location_scheme \<Rightarrow> ('a \<times> bool) list \<Rightarrow> 'a memory \<Rightarrow>
   ('a, 'z) typed_option_with_location_scheme \<times> 'a memory" where
  "value_calls invalid_choice_error this [] mem = (this, mem)"
| "value_calls invalid_choice_error this ((v, flag) # calls) mem =
     (case set_value invalid_choice_error value_set_callback_with_location this v flag mem of
        (this1, mem1) \<Rightarrow> value_calls invalid_choice_error this1 calls mem1)"

subsection \<open>Comparison\<close>

text \<open>
  \<^verbatim>\<open>operator==\<close> on two \<^verbatim>\<open>typed_option<T>\<close> is a chain of \<^verbatim>\<open>&&\<close>, evaluated from the left
  and stopping at the first false operand; \<^verbatim>\<open>default_value()\<close> is the sixth operand, after
  name, type hash, help, short name and keep, and before necessary. Both calls of
  \<^verbatim>\<open>default_value()\<close> throw the same exception, so the order of the two is immaterial.
  The two default values are compared with \<^verbatim>\<open>operator==\<close> of \<^verbatim>\<open>T\<close>, the argument \<open>eq\<close>:
  it is equality for the integer types, \<^verbatim>\<open>bool\<close>, strings and vectors of strings, and the
  IEEE comparison for \<^verbatim>\<open>float\<close>, which is false on two NaN.
\<close>

definition operator_eq ::
  "('a \<Rightarrow> 'a \<Rightarrow> bool) \<Rightarrow> ('a, 'y) typed_option_scheme \<Rightarrow> ('a, 'z) typed_option_scheme \<Rightarrow>
   vw_exception + bool" where
  "operator_eq eq lhs rhs =
     (if m_name lhs = m_name rhs \<and> m_type_hash lhs = m_type_hash rhs \<and> m_help lhs = m_help rhs \<and>
         m_short_name lhs = m_short_name rhs \<and> m_keep lhs = m_keep rhs
      then (case default_value lhs of
              Inl e \<Rightarrow> Inl e
            | Inr dl \<Rightarrow>
                (case default_value rhs of
                   Inl e \<Rightarrow> Inl e
                 | Inr dr \<Rightarrow> Inr (eq dl dr \<and> m_necessary lhs = m_necessary rhs)))
      else Inr False)"

definition operator_ne ::
  "('a \<Rightarrow> 'a \<Rightarrow> bool) \<Rightarrow> ('a, 'y) typed_option_scheme \<Rightarrow> ('a, 'z) typed_option_scheme \<Rightarrow>
   vw_exception + bool" where
  "operator_ne eq lhs rhs =
     (case operator_eq eq lhs rhs of Inl e \<Rightarrow> Inl e | Inr b \<Rightarrow> Inr (\<not> b))"

text \<open>
  \<^verbatim>\<open>operator==\<close> on two \<^verbatim>\<open>base_option\<close> compares the same fields without the default
  value, and cannot throw.
\<close>

definition base_operator_eq :: "'y base_option_scheme \<Rightarrow> 'z base_option_scheme \<Rightarrow> bool" where
  "base_operator_eq lhs rhs =
     (m_name lhs = m_name rhs \<and> m_type_hash lhs = m_type_hash rhs \<and> m_help lhs = m_help rhs \<and>
      m_short_name lhs = m_short_name rhs \<and> m_keep lhs = m_keep rhs \<and>
      m_necessary lhs = m_necessary rhs)"

definition base_operator_ne :: "'y base_option_scheme \<Rightarrow> 'z base_option_scheme \<Rightarrow> bool" where
  "base_operator_ne lhs rhs = (\<not> base_operator_eq lhs rhs)"

subsection \<open>The visitor\<close>

text \<open>
  \<^verbatim>\<open>typed_option_visitor\<close> has one virtual \<^verbatim>\<open>visit\<close> per value type. An operation receives
  the option by reference and may change it and the visitor's own state \<open>'s\<close>; it returns
  both. The bodies of the base class are empty.
\<close>

record 's typed_option_visitor =
  visit_uint32 :: "uint32_t typed_option \<Rightarrow> 's \<Rightarrow> uint32_t typed_option \<times> 's"
  visit_uint64 :: "uint64_t typed_option \<Rightarrow> 's \<Rightarrow> uint64_t typed_option \<times> 's"
  visit_int64 :: "int64_t typed_option \<Rightarrow> 's \<Rightarrow> int64_t typed_option \<times> 's"
  visit_int32 :: "int32_t typed_option \<Rightarrow> 's \<Rightarrow> int32_t typed_option \<times> 's"
  visit_bool :: "bool typed_option \<Rightarrow> 's \<Rightarrow> bool typed_option \<times> 's"
  visit_float :: "float typed_option \<Rightarrow> 's \<Rightarrow> float typed_option \<times> 's"
  visit_string :: "string typed_option \<Rightarrow> 's \<Rightarrow> string typed_option \<times> 's"
  visit_string_vector :: "string list typed_option \<Rightarrow> 's \<Rightarrow> string list typed_option \<times> 's"

definition base_visitor :: "'s typed_option_visitor" where
  "base_visitor =
     \<lparr> visit_uint32 = (\<lambda>option s. (option, s)), visit_uint64 = (\<lambda>option s. (option, s)),
       visit_int64 = (\<lambda>option s. (option, s)), visit_int32 = (\<lambda>option s. (option, s)),
       visit_bool = (\<lambda>option s. (option, s)), visit_float = (\<lambda>option s. (option, s)),
       visit_string = (\<lambda>option s. (option, s)),
       visit_string_vector = (\<lambda>option s. (option, s)) \<rparr>"

text \<open>
  \<^verbatim>\<open>accept\<close> calls \<^verbatim>\<open>visitor.visit(*this)\<close>; the static type of \<^verbatim>\<open>*this\<close> is
  \<^verbatim>\<open>typed_option<T>&\<close>, which selects the overload. One instance per value type.
\<close>

definition accept_uint32 ::
  "uint32_t typed_option \<Rightarrow> 's typed_option_visitor \<Rightarrow> 's \<Rightarrow> uint32_t typed_option \<times> 's" where
  "accept_uint32 this visitor s = visit_uint32 visitor this s"

definition accept_uint64 ::
  "uint64_t typed_option \<Rightarrow> 's typed_option_visitor \<Rightarrow> 's \<Rightarrow> uint64_t typed_option \<times> 's" where
  "accept_uint64 this visitor s = visit_uint64 visitor this s"

definition accept_int64 ::
  "int64_t typed_option \<Rightarrow> 's typed_option_visitor \<Rightarrow> 's \<Rightarrow> int64_t typed_option \<times> 's" where
  "accept_int64 this visitor s = visit_int64 visitor this s"

definition accept_int32 ::
  "int32_t typed_option \<Rightarrow> 's typed_option_visitor \<Rightarrow> 's \<Rightarrow> int32_t typed_option \<times> 's" where
  "accept_int32 this visitor s = visit_int32 visitor this s"

definition accept_bool ::
  "bool typed_option \<Rightarrow> 's typed_option_visitor \<Rightarrow> 's \<Rightarrow> bool typed_option \<times> 's" where
  "accept_bool this visitor s = visit_bool visitor this s"

definition accept_float ::
  "float typed_option \<Rightarrow> 's typed_option_visitor \<Rightarrow> 's \<Rightarrow> float typed_option \<times> 's" where
  "accept_float this visitor s = visit_float visitor this s"

definition accept_string ::
  "string typed_option \<Rightarrow> 's typed_option_visitor \<Rightarrow> 's \<Rightarrow> string typed_option \<times> 's" where
  "accept_string this visitor s = visit_string visitor this s"

definition accept_string_vector ::
  "string list typed_option \<Rightarrow> 's typed_option_visitor \<Rightarrow> 's \<Rightarrow>
   string list typed_option \<times> 's" where
  "accept_string_vector this visitor s = visit_string_vector visitor this s"

text \<open>
  A visitor that overrides all eight operations, each appending the name of its own
  parameter type to a log and leaving the option alone. The log after a call of
  \<^verbatim>\<open>accept\<close> is the list of operations that ran.
\<close>

datatype visit_overload =
  Visit_uint32 | Visit_uint64 | Visit_int64 | Visit_int32 |
  Visit_bool | Visit_float | Visit_string | Visit_string_vector

definition logging_visitor :: "visit_overload list typed_option_visitor" where
  "logging_visitor =
     \<lparr> visit_uint32 = (\<lambda>option log. (option, log @ [Visit_uint32])),
       visit_uint64 = (\<lambda>option log. (option, log @ [Visit_uint64])),
       visit_int64 = (\<lambda>option log. (option, log @ [Visit_int64])),
       visit_int32 = (\<lambda>option log. (option, log @ [Visit_int32])),
       visit_bool = (\<lambda>option log. (option, log @ [Visit_bool])),
       visit_float = (\<lambda>option log. (option, log @ [Visit_float])),
       visit_string = (\<lambda>option log. (option, log @ [Visit_string])),
       visit_string_vector = (\<lambda>option log. (option, log @ [Visit_string_vector])) \<rparr>"

section \<open>Properties\<close>

subsection \<open>Assignment and reading\<close>

text \<open>What the setter leaves alone, and what it does to the error string and the memory.\<close>

lemma set_value_m_location:
  "m_location (fst (set_value ice cb opt v flag mem)) = m_location opt"
  by (simp add: set_value_def Let_def)

lemma set_value_memory:
  "snd (set_value ice cb opt v flag mem) = cb (opt\<lparr> m_value := Some v \<rparr>) v flag mem"
  by (simp add: set_value_def Let_def)

lemma set_value_one_of:
  "m_one_of (fst (set_value ice cb opt v flag mem)) = m_one_of opt"
  by (simp add: set_value_def Let_def)

lemma set_value_name:
  "m_name (fst (set_value ice cb opt v flag mem)) = m_name opt"
  by (simp add: set_value_def Let_def)

lemma set_value_err:
  "m_one_of_err (fst (set_value ice cb opt v flag mem)) =
     (if m_one_of opt \<noteq> {} \<and> v \<notin> m_one_of opt then ice (opt\<lparr> m_value := Some v \<rparr>) v
      else m_one_of_err opt)"
  by (simp add: set_value_def Let_def)

text \<open>\<^bold>\<open>C4\<close>: after \<^verbatim>\<open>opt.value(v)\<close>, for every value type and either class of option,
  \<^verbatim>\<open>value_supplied()\<close> is true and \<^verbatim>\<open>value()\<close> returns \<open>v\<close>.\<close>

theorem value_then_supplied_and_read:
  "value_supplied (fst (set_value ice cb opt v flag mem)) \<and>
   get_value (fst (set_value ice cb opt v flag mem)) = Inr v"
  by (simp add: set_value_def Let_def value_supplied_def get_value_def)

text \<open>\<^bold>\<open>C7\<close>: a freshly constructed \<^verbatim>\<open>typed_option<T>\<close> has neither a value nor a default;
  reading the value throws the missing-value exception, reading the default the
  missing-default exception, and the two exceptions differ.\<close>

theorem fresh_option_has_nothing:
  "\<not> value_supplied (new_typed_option h name :: 'a typed_option) \<and>
   \<not> default_value_supplied (new_typed_option h name :: 'a typed_option) \<and>
   get_value (new_typed_option h name :: 'a typed_option) = Inl MissingValue \<and>
   default_value (new_typed_option h name :: 'a typed_option) = Inl MissingDefault \<and>
   MissingValue \<noteq> MissingDefault"
  by (simp add: new_typed_option_def value_supplied_def default_value_supplied_def
      get_value_def default_value_def MissingValue_def MissingDefault_def)

text \<open>\<^bold>\<open>C5\<close>: when the set of allowed choices is not empty and \<open>v\<close> is not in it,
  \<^verbatim>\<open>value(v)\<close> still stores \<open>v\<close>: the setter returns the object, with the value supplied and
  readable, and the violation only goes into \<^verbatim>\<open>m_one_of_err\<close>.\<close>

theorem invalid_choice_still_stored:
  assumes "m_one_of opt \<noteq> {}" and "v \<notin> m_one_of opt"
  shows "value_supplied (fst (set_value ice cb opt v flag mem)) \<and>
         get_value (fst (set_value ice cb opt v flag mem)) = Inr v \<and>
         m_one_of_err (fst (set_value ice cb opt v flag mem)) = ice (opt\<lparr> m_value := Some v \<rparr>) v"
  using assms by (simp add: set_value_def Let_def value_supplied_def get_value_def)

theorem invalid_choice_still_stored_witness:
  "m_one_of (set_one_of (new_typed_option 0 ''batch-size'' :: int32_t typed_option) {16, 32, 64}) \<noteq> {} \<and>
   (100 :: int32_t) \<notin> m_one_of (set_one_of (new_typed_option 0 ''batch-size'' :: int32_t typed_option) {16, 32, 64}) \<and>
   get_value (fst (set_value invalid_choice_error_int32 value_set_callback
        (set_one_of (new_typed_option 0 ''batch-size'') {16, 32, 64}) 100 False (\<lambda>_. 0))) = Inr 100"
  using invalid_choice_still_stored [of "set_one_of (new_typed_option 0 ''batch-size'' :: int32_t typed_option) {16, 32, 64}"
      100 invalid_choice_error_int32 value_set_callback False "\<lambda>_. 0"]
  by (simp add: set_one_of_def new_typed_option_def)

subsection \<open>The located option\<close>

text \<open>\<^bold>\<open>C6\<close>: for a located option bound to the variable at \<open>loc\<close>, a call
  \<^verbatim>\<open>value(v, true)\<close> stores \<open>v\<close> at \<open>loc\<close>; a following call \<^verbatim>\<open>value(v2, false)\<close> leaves
  the memory as it was, so \<open>loc\<close> still holds \<open>v\<close>, while \<^verbatim>\<open>value()\<close> returns \<open>v2\<close>.\<close>

theorem located_write_then_frame:
  assumes "m_location opt = Some loc"
  shows "(case set_value ice value_set_callback_with_location opt v True mem of
            (opt1, mem1) \<Rightarrow>
              (case set_value ice value_set_callback_with_location opt1 v2 False mem1 of
                 (opt2, mem2) \<Rightarrow>
                   mem1 loc = v \<and> mem2 loc = v \<and> mem2 = mem1 \<and> get_value opt2 = Inr v2))"
  using assms
  by (simp add: set_value_def Let_def value_set_callback_with_location_def get_value_def)

theorem located_write_then_frame_witness:
  "m_location (new_typed_option_with_location 0 ''passes'' 7 :: uint32_t typed_option_with_location) = Some 7 \<and>
   (case set_value invalid_choice_error_uint32 value_set_callback_with_location
           (new_typed_option_with_location 0 ''passes'' 7) 5 True (\<lambda>_. 0) of
      (opt1, mem1) \<Rightarrow>
        (case set_value invalid_choice_error_uint32 value_set_callback_with_location opt1 9 False mem1 of
           (opt2, mem2) \<Rightarrow>
             mem1 7 = 5 \<and> mem2 7 = 5 \<and> mem2 = mem1 \<and> get_value opt2 = Inr 9))"
  using located_write_then_frame [where opt = "new_typed_option_with_location 0 ''passes'' 7 :: uint32_t typed_option_with_location"
      and loc = 7 and ice = invalid_choice_error_uint32 and v = 5 and mem = "\<lambda>_. 0" and ?v2.0 = 9]
  by (simp add: new_typed_option_with_location_def)

subsection \<open>The error string once set\<close>

text \<open>\<^bold>\<open>C10\<close>: let \<^verbatim>\<open>m_one_of_err\<close> be non-empty after an assignment that violated the
  allowed choices. A later \<^verbatim>\<open>value(v)\<close> with \<open>v\<close> in the set leaves the string unchanged,
  \<^verbatim>\<open>set_one_of\<close> with any set leaves it unchanged, and so does an assignment of a member
  of the new set after \<^verbatim>\<open>set_one_of\<close>.\<close>

theorem one_of_err_sticky:
  assumes "m_one_of opt \<noteq> {}" and "v0 \<notin> m_one_of opt"
    and "opt1 = fst (set_value ice cb opt v0 flag0 mem0)"
    and "m_one_of_err opt1 \<noteq> ''''"
  shows "(\<forall>v \<in> m_one_of opt1. \<forall>flag mem.
            m_one_of_err (fst (set_value ice cb opt1 v flag mem)) = m_one_of_err opt1) \<and>
         (\<forall>S. m_one_of_err (set_one_of opt1 S) = m_one_of_err opt1) \<and>
         (\<forall>S. \<forall>v \<in> S. \<forall>flag mem.
            m_one_of_err (fst (set_value ice cb (set_one_of opt1 S) v flag mem)) = m_one_of_err opt1)"
  by (simp add: set_value_def Let_def set_one_of_def)

theorem one_of_err_sticky_witness:
  "m_one_of (set_one_of (new_typed_option 0 ''mode'' :: string typed_option) {''a'', ''b''}) \<noteq> {} \<and>
   ''c'' \<notin> m_one_of (set_one_of (new_typed_option 0 ''mode'' :: string typed_option) {''a'', ''b''}) \<and>
   m_one_of_err (fst (set_value invalid_choice_error_std_string value_set_callback
       (set_one_of (new_typed_option 0 ''mode'') {''a'', ''b''}) ''c'' False (\<lambda>_. ''''))) \<noteq> '''' \<and>
   m_one_of_err (fst (set_value invalid_choice_error_std_string value_set_callback
       (fst (set_value invalid_choice_error_std_string value_set_callback
          (set_one_of (new_typed_option 0 ''mode'') {''a'', ''b''}) ''c'' False (\<lambda>_. ''''))) ''a'' False (\<lambda>_. ''''))) =
   m_one_of_err (fst (set_value invalid_choice_error_std_string value_set_callback
       (set_one_of (new_typed_option 0 ''mode'') {''a'', ''b''}) ''c'' False (\<lambda>_. '''')))"
proof -
  let ?opt = "set_one_of (new_typed_option 0 ''mode'' :: string typed_option) {''a'', ''b''}"
  let ?opt1 = "fst (set_value invalid_choice_error_std_string value_set_callback ?opt ''c'' False (\<lambda>_. ''''))"
  have h1: "m_one_of ?opt \<noteq> {}" by (simp add: set_one_of_def)
  have h2: "''c'' \<notin> m_one_of ?opt" by (simp add: set_one_of_def new_typed_option_def)
  have h3: "m_one_of_err ?opt1 \<noteq> ''''"
    by (simp add: set_value_def Let_def set_one_of_def new_typed_option_def
        invalid_choice_error_std_string_def invalid_choice_error_string_def)
  have h4: "''a'' \<in> m_one_of ?opt1"
    by (simp add: set_value_def Let_def set_one_of_def new_typed_option_def)
  from one_of_err_sticky [OF h1 h2 refl h3] h4
  have "m_one_of_err (fst (set_value invalid_choice_error_std_string value_set_callback ?opt1 ''a'' False (\<lambda>_. ''''))) = m_one_of_err ?opt1"
    by blast
  with h1 h2 h3 show ?thesis by blast
qed

subsection \<open>Visitor dispatch\<close>

text \<open>\<^bold>\<open>C8\<close>: for each of the eight value types, \<^verbatim>\<open>accept\<close> on a \<^verbatim>\<open>typed_option<T>\<close> with
  the logging visitor extends the log by exactly one entry, the operation for \<^verbatim>\<open>T\<close>, and
  returns the option as it was; with the base visitor, whose operations are all the
  defaults, \<^verbatim>\<open>accept\<close> changes neither the option nor the state.\<close>

theorem accept_dispatch:
  "accept_uint32 o1 logging_visitor log = (o1, log @ [Visit_uint32]) \<and>
   accept_uint64 o2 logging_visitor log = (o2, log @ [Visit_uint64]) \<and>
   accept_int64 o3 logging_visitor log = (o3, log @ [Visit_int64]) \<and>
   accept_int32 o4 logging_visitor log = (o4, log @ [Visit_int32]) \<and>
   accept_bool o5 logging_visitor log = (o5, log @ [Visit_bool]) \<and>
   accept_float o6 logging_visitor log = (o6, log @ [Visit_float]) \<and>
   accept_string o7 logging_visitor log = (o7, log @ [Visit_string]) \<and>
   accept_string_vector o8 logging_visitor log = (o8, log @ [Visit_string_vector]) \<and>
   accept_uint32 o1 base_visitor s = (o1, s) \<and>
   accept_uint64 o2 base_visitor s = (o2, s) \<and>
   accept_int64 o3 base_visitor s = (o3, s) \<and>
   accept_int32 o4 base_visitor s = (o4, s) \<and>
   accept_bool o5 base_visitor s = (o5, s) \<and>
   accept_float o6 base_visitor s = (o6, s) \<and>
   accept_string o7 base_visitor s = (o7, s) \<and>
   accept_string_vector o8 base_visitor s = (o8, s)"
  by (simp add: accept_uint32_def accept_uint64_def accept_int64_def accept_int32_def
      accept_bool_def accept_float_def accept_string_def accept_string_vector_def
      logging_visitor_def base_visitor_def)

subsection \<open>Comparison of options\<close>

text \<open>\<^bold>\<open>C9\<close>, as stated, fails: \<^verbatim>\<open>operator==\<close> does not read \<^verbatim>\<open>default_value()\<close>
  unconditionally. Two options without a default and with different names compare unequal,
  and nothing is thrown.\<close>

theorem operator_eq_short_circuit_counterexample:
  "\<not> default_value_supplied (new_typed_option 0 ''alpha'' :: int32_t typed_option) \<and>
   \<not> default_value_supplied (new_typed_option 0 ''beta'' :: int32_t typed_option) \<and>
   operator_eq (=) (new_typed_option 0 ''alpha'' :: int32_t typed_option)
               (new_typed_option 0 ''beta'' :: int32_t typed_option) = Inr False"
  by (simp add: operator_eq_def new_typed_option_def default_value_supplied_def)

text \<open>\<^bold>\<open>C9\<close>, amended: when name, type hash, help, short name and keep of the two operands
  all agree and at least one operand has no default, \<^verbatim>\<open>operator==\<close> throws the
  missing-default exception; when one of those five fields differs it returns false
  without reading a default. This holds whatever \<^verbatim>\<open>operator==\<close> of the value type is.\<close>

theorem operator_eq_missing_default:
  "(m_name lhs = m_name rhs \<and> m_type_hash lhs = m_type_hash rhs \<and> m_help lhs = m_help rhs \<and>
    m_short_name lhs = m_short_name rhs \<and> m_keep lhs = m_keep rhs \<longrightarrow>
    \<not> default_value_supplied lhs \<or> \<not> default_value_supplied rhs \<longrightarrow>
    operator_eq eq lhs rhs = Inl MissingDefault) \<and>
   (\<not> (m_name lhs = m_name rhs \<and> m_type_hash lhs = m_type_hash rhs \<and> m_help lhs = m_help rhs \<and>
       m_short_name lhs = m_short_name rhs \<and> m_keep lhs = m_keep rhs) \<longrightarrow>
    operator_eq eq lhs rhs = Inr False)"
  by (auto simp add: operator_eq_def default_value_def default_value_supplied_def
      split: option.splits)

theorem operator_eq_missing_default_witness:
  "operator_eq (=) (new_typed_option 0 ''alpha'' :: int32_t typed_option)
               (set_default_value (new_typed_option 0 ''alpha'') 32) = Inl MissingDefault \<and>
   operator_eq (=) (new_typed_option 0 ''alpha'' :: int32_t typed_option)
               (set_default_value (new_typed_option 0 ''beta'') 32) = Inr False"
  using operator_eq_missing_default [where lhs = "new_typed_option 0 ''alpha'' :: int32_t typed_option"
      and rhs = "set_default_value (new_typed_option 0 ''alpha'' :: int32_t typed_option) 32"
      and eq = "(=)"]
    operator_eq_missing_default [where lhs = "new_typed_option 0 ''alpha'' :: int32_t typed_option"
      and rhs = "set_default_value (new_typed_option 0 ''beta'' :: int32_t typed_option) 32"
      and eq = "(=)"]
  by (simp add: new_typed_option_def set_default_value_def default_value_supplied_def)

text \<open>When both operands have a default, \<^verbatim>\<open>operator==\<close> returns a boolean: all six
  metadata fields agree and the two defaults are equal under \<^verbatim>\<open>operator==\<close> of the value
  type. The value, the allowed choices and the error string are not read. With a
  comparison that is not reflexive at the default, as the one of \<^verbatim>\<open>float\<close> at a NaN, an
  option is not equal to itself.\<close>

lemma operator_eq_with_defaults:
  assumes "m_default_value lhs = Some dl" and "m_default_value rhs = Some dr"
  shows "operator_eq eq lhs rhs =
           Inr (m_name lhs = m_name rhs \<and> m_type_hash lhs = m_type_hash rhs \<and>
                m_help lhs = m_help rhs \<and> m_short_name lhs = m_short_name rhs \<and>
                m_keep lhs = m_keep rhs \<and> eq dl dr \<and> m_necessary lhs = m_necessary rhs)"
  using assms by (auto simp add: operator_eq_def default_value_def)

lemma operator_eq_ignores_value_and_choices:
  "operator_eq eq (lhs\<lparr> m_value := x, m_one_of := S, m_one_of_err := e \<rparr>) rhs =
     operator_eq eq lhs rhs \<and>
   operator_eq eq lhs (rhs\<lparr> m_value := x', m_one_of := S', m_one_of_err := e' \<rparr>) =
     operator_eq eq lhs rhs"
  by (auto simp add: operator_eq_def default_value_def split: option.splits)

lemma operator_eq_irreflexive_default:
  assumes "m_default_value a = Some d" and "\<not> eq d d"
  shows "operator_eq eq a a = Inr False"
  using assms by (simp add: operator_eq_def default_value_def)

text \<open>\<^bold>\<open>C3\<close>: two options with identical name, type hash, help, short name, keep, necessary
  and default are to compare equal. On two freshly constructed options of the same name,
  identical in every field with the default absent in both, \<^verbatim>\<open>operator==\<close> of
  \<^verbatim>\<open>typed_option\<close> returns no boolean, it throws the missing-default exception, while
  \<^verbatim>\<open>operator==\<close> of \<^verbatim>\<open>base_option\<close> on the same two objects returns true. With
  \<^verbatim>\<open>m_necessary\<close> changed on one of them the typed comparison still throws and does not
  return false.\<close>

theorem operator_eq_throws_on_identical_fresh_options:
  "operator_eq (=) (new_typed_option 0 ''alpha'' :: int32_t typed_option)
               (new_typed_option 0 ''alpha'' :: int32_t typed_option) = Inl MissingDefault \<and>
   base_operator_eq (new_typed_option 0 ''alpha'' :: int32_t typed_option)
               (new_typed_option 0 ''alpha'' :: int32_t typed_option) \<and>
   operator_eq (=) (new_typed_option 0 ''alpha'' :: int32_t typed_option)
               ((new_typed_option 0 ''alpha'' :: int32_t typed_option)\<lparr> m_necessary := True \<rparr>)
     = Inl MissingDefault"
  by (simp add: operator_eq_def base_operator_eq_def new_typed_option_def default_value_def)

subsection \<open>The message of an invalid choice\<close>

lemma invalid_choice_error_string_nonempty:
  "invalid_choice_error_string fmt ord this v \<noteq> ''''"
  by (simp add: invalid_choice_error_string_def)

lemma invalid_choice_error_string_name:
  "sublist (m_name this) (invalid_choice_error_string fmt ord this v)"
proof -
  have "invalid_choice_error_string fmt ord this v =
      (''Error: '' @ [CHR 0x27] @ v @ [CHR 0x27] @ '' is not a valid choice for option --'')
        @ m_name this
        @ (''. Please select from {'' @ join (map fmt (ord (m_one_of this))) '', '' @ ''}'')"
    by (simp add: invalid_choice_error_string_def)
  then show ?thesis
    unfolding sublist_def by blast
qed

lemma invalid_choice_error_string_choices:
  "sublist (''{'' @ join (map fmt (ord (m_one_of this))) '', '' @ ''}'')
     (invalid_choice_error_string fmt ord this v)"
proof -
  have "invalid_choice_error_string fmt ord this v =
      (''Error: '' @ [CHR 0x27] @ v @ [CHR 0x27] @ '' is not a valid choice for option --''
         @ m_name this @ ''. Please select from '')
        @ (''{'' @ join (map fmt (ord (m_one_of this))) '', '' @ ''}'') @ []"
    by (simp add: invalid_choice_error_string_def)
  then show ?thesis
    unfolding sublist_def by blast
qed

text \<open>The scenario of a 32-bit option \<^verbatim>\<open>batch-size\<close> with default 32 and choices 16, 32 and
  64 that is assigned 100: the message in full.\<close>

lemma batch_size_scenario:
  "m_one_of_err (fst (set_value invalid_choice_error_int32 value_set_callback
      (set_one_of (set_default_value (new_typed_option 0 ''batch-size'') 32) {16, 32, 64})
      100 False (\<lambda>_. 0))) =
   ''Error: '' @ [CHR 0x27] @ ''100'' @ [CHR 0x27] @
   '' is not a valid choice for option --batch-size. Please select from {16, 32, 64}''"
  by (simp add: set_value_err set_one_of_def set_default_value_def new_typed_option_def
      invalid_choice_error_int32_def invalid_choice_error_string_def to_string_int32_def
      to_string_int_def in_order_signed_def)

text \<open>\<^bold>\<open>C1\<close>, as stated for every value type, fails: for a \<^verbatim>\<open>bool\<close> option the template
  overload of \<^verbatim>\<open>invalid_choice_error\<close> is selected, and after a violating assignment
  the error string is empty.\<close>

theorem invalid_choice_error_bool_counterexample:
  "m_one_of (set_one_of (new_typed_option 0 ''quiet'' :: bool typed_option) {True}) \<noteq> {} \<and>
   False \<notin> m_one_of (set_one_of (new_typed_option 0 ''quiet'' :: bool typed_option) {True}) \<and>
   m_one_of_err (fst (set_value invalid_choice_error_bool value_set_callback
      (set_one_of (new_typed_option 0 ''quiet'') {True}) False False (\<lambda>_. False))) = ''''"
  by (simp add: set_value_err set_one_of_def new_typed_option_def
      invalid_choice_error_bool_def invalid_choice_error_U_def)

text \<open>\<^bold>\<open>C1\<close>, amended: for \<^verbatim>\<open>std::string\<close> and the four integer types, after an assignment
  of a value outside a non-empty set of allowed choices the error string is not empty and
  contains the name of the option and the set of choices, in braces, in the order of the
  set and separated by a comma and a space. For \<^verbatim>\<open>bool\<close>, \<^verbatim>\<open>float\<close> and
  \<^verbatim>\<open>std::vector<std::string>\<close> the error string is the empty string after such an
  assignment.\<close>

theorem invalid_choice_error_message:
  "(\<forall>(opt :: (string, 'z) typed_option_scheme) v cb flag mem.
      m_one_of opt \<noteq> {} \<longrightarrow> v \<notin> m_one_of opt \<longrightarrow>
      (let err = m_one_of_err (fst (set_value invalid_choice_error_std_string cb opt v flag mem))
       in err \<noteq> '''' \<and> sublist (m_name opt) err \<and>
          sublist (''{'' @ join (in_order_string (m_one_of opt)) '', '' @ ''}'') err)) \<and>
   (\<forall>(opt :: (int32_t, 'z) typed_option_scheme) v cb flag mem.
      m_one_of opt \<noteq> {} \<longrightarrow> v \<notin> m_one_of opt \<longrightarrow>
      (let err = m_one_of_err (fst (set_value invalid_choice_error_int32 cb opt v flag mem))
       in err \<noteq> '''' \<and> sublist (m_name opt) err \<and>
          sublist (''{'' @ join (map to_string_int32 (in_order_signed (m_one_of opt))) '', '' @ ''}'') err)) \<and>
   (\<forall>(opt :: (int64_t, 'z) typed_option_scheme) v cb flag mem.
      m_one_of opt \<noteq> {} \<longrightarrow> v \<notin> m_one_of opt \<longrightarrow>
      (let err = m_one_of_err (fst (set_value invalid_choice_error_int64 cb opt v flag mem))
       in err \<noteq> '''' \<and> sublist (m_name opt) err \<and>
          sublist (''{'' @ join (map to_string_int64 (in_order_signed (m_one_of opt))) '', '' @ ''}'') err)) \<and>
   (\<forall>(opt :: (uint32_t, 'z) typed_option_scheme) v cb flag mem.
      m_one_of opt \<noteq> {} \<longrightarrow> v \<notin> m_one_of opt \<longrightarrow>
      (let err = m_one_of_err (fst (set_value invalid_choice_error_uint32 cb opt v flag mem))
       in err \<noteq> '''' \<and> sublist (m_name opt) err \<and>
          sublist (''{'' @ join (map to_string_uint32 (in_order_unsigned (m_one_of opt))) '', '' @ ''}'') err)) \<and>
   (\<forall>(opt :: (uint64_t, 'z) typed_option_scheme) v cb flag mem.
      m_one_of opt \<noteq> {} \<longrightarrow> v \<notin> m_one_of opt \<longrightarrow>
      (let err = m_one_of_err (fst (set_value invalid_choice_error_uint64 cb opt v flag mem))
       in err \<noteq> '''' \<and> sublist (m_name opt) err \<and>
          sublist (''{'' @ join (map to_string_uint64 (in_order_unsigned (m_one_of opt))) '', '' @ ''}'') err)) \<and>
   (\<forall>(opt :: (bool, 'z) typed_option_scheme) v cb flag mem.
      m_one_of opt \<noteq> {} \<longrightarrow> v \<notin> m_one_of opt \<longrightarrow>
      m_one_of_err (fst (set_value invalid_choice_error_bool cb opt v flag mem)) = '''') \<and>
   (\<forall>(opt :: (float, 'z) typed_option_scheme) v cb flag mem.
      m_one_of opt \<noteq> {} \<longrightarrow> v \<notin> m_one_of opt \<longrightarrow>
      m_one_of_err (fst (set_value invalid_choice_error_float cb opt v flag mem)) = '''') \<and>
   (\<forall>(opt :: (string list, 'z) typed_option_scheme) v cb flag mem.
      m_one_of opt \<noteq> {} \<longrightarrow> v \<notin> m_one_of opt \<longrightarrow>
      m_one_of_err (fst (set_value invalid_choice_error_string_vector cb opt v flag mem)) = '''')"
proof -
  have str: "\<And>fmt ord (this :: ('a, 'z) typed_option_scheme) x v.
      invalid_choice_error_string fmt ord (this\<lparr> m_value := x \<rparr>) v \<noteq> '''' \<and>
      sublist (m_name this) (invalid_choice_error_string fmt ord (this\<lparr> m_value := x \<rparr>) v) \<and>
      sublist (''{'' @ join (map fmt (ord (m_one_of this))) '', '' @ ''}'')
        (invalid_choice_error_string fmt ord (this\<lparr> m_value := x \<rparr>) v)"
  proof -
    fix fmt ord and this :: "('a, 'z) typed_option_scheme" and x v
    show "invalid_choice_error_string fmt ord (this\<lparr> m_value := x \<rparr>) v \<noteq> '''' \<and>
      sublist (m_name this) (invalid_choice_error_string fmt ord (this\<lparr> m_value := x \<rparr>) v) \<and>
      sublist (''{'' @ join (map fmt (ord (m_one_of this))) '', '' @ ''}'')
        (invalid_choice_error_string fmt ord (this\<lparr> m_value := x \<rparr>) v)"
      using invalid_choice_error_string_nonempty [of fmt ord "this\<lparr> m_value := x \<rparr>" v]
        invalid_choice_error_string_name [of "this\<lparr> m_value := x \<rparr>" fmt ord v]
        invalid_choice_error_string_choices [of fmt ord "this\<lparr> m_value := x \<rparr>" v]
      by simp
  qed
  have s: "(\<forall>(opt :: (string, 'z) typed_option_scheme) v cb flag mem.
      m_one_of opt \<noteq> {} \<longrightarrow> v \<notin> m_one_of opt \<longrightarrow>
      (let err = m_one_of_err (fst (set_value invalid_choice_error_std_string cb opt v flag mem))
       in err \<noteq> '''' \<and> sublist (m_name opt) err \<and>
          sublist (''{'' @ join (in_order_string (m_one_of opt)) '', '' @ ''}'') err))"
    using str [of "\<lambda>s. s" in_order_string]
    by (simp add: set_value_err invalid_choice_error_std_string_def Let_def)
  have i32: "(\<forall>(opt :: (int32_t, 'z) typed_option_scheme) v cb flag mem.
      m_one_of opt \<noteq> {} \<longrightarrow> v \<notin> m_one_of opt \<longrightarrow>
      (let err = m_one_of_err (fst (set_value invalid_choice_error_int32 cb opt v flag mem))
       in err \<noteq> '''' \<and> sublist (m_name opt) err \<and>
          sublist (''{'' @ join (map to_string_int32 (in_order_signed (m_one_of opt))) '', '' @ ''}'') err))"
    using str [of to_string_int32 in_order_signed]
    by (simp add: set_value_err invalid_choice_error_int32_def Let_def)
  have i64: "(\<forall>(opt :: (int64_t, 'z) typed_option_scheme) v cb flag mem.
      m_one_of opt \<noteq> {} \<longrightarrow> v \<notin> m_one_of opt \<longrightarrow>
      (let err = m_one_of_err (fst (set_value invalid_choice_error_int64 cb opt v flag mem))
       in err \<noteq> '''' \<and> sublist (m_name opt) err \<and>
          sublist (''{'' @ join (map to_string_int64 (in_order_signed (m_one_of opt))) '', '' @ ''}'') err))"
    using str [of to_string_int64 in_order_signed]
    by (simp add: set_value_err invalid_choice_error_int64_def Let_def)
  have u32: "(\<forall>(opt :: (uint32_t, 'z) typed_option_scheme) v cb flag mem.
      m_one_of opt \<noteq> {} \<longrightarrow> v \<notin> m_one_of opt \<longrightarrow>
      (let err = m_one_of_err (fst (set_value invalid_choice_error_uint32 cb opt v flag mem))
       in err \<noteq> '''' \<and> sublist (m_name opt) err \<and>
          sublist (''{'' @ join (map to_string_uint32 (in_order_unsigned (m_one_of opt))) '', '' @ ''}'') err))"
    using str [of to_string_uint32 in_order_unsigned]
    by (simp add: set_value_err invalid_choice_error_uint32_def Let_def)
  have u64: "(\<forall>(opt :: (uint64_t, 'z) typed_option_scheme) v cb flag mem.
      m_one_of opt \<noteq> {} \<longrightarrow> v \<notin> m_one_of opt \<longrightarrow>
      (let err = m_one_of_err (fst (set_value invalid_choice_error_uint64 cb opt v flag mem))
       in err \<noteq> '''' \<and> sublist (m_name opt) err \<and>
          sublist (''{'' @ join (map to_string_uint64 (in_order_unsigned (m_one_of opt))) '', '' @ ''}'') err))"
    using str [of to_string_uint64 in_order_unsigned]
    by (simp add: set_value_err invalid_choice_error_uint64_def Let_def)
  have b: "(\<forall>(opt :: (bool, 'z) typed_option_scheme) v cb flag mem.
      m_one_of opt \<noteq> {} \<longrightarrow> v \<notin> m_one_of opt \<longrightarrow>
      m_one_of_err (fst (set_value invalid_choice_error_bool cb opt v flag mem)) = '''')"
    by (simp add: set_value_err invalid_choice_error_bool_def invalid_choice_error_U_def)
  have f: "(\<forall>(opt :: (float, 'z) typed_option_scheme) v cb flag mem.
      m_one_of opt \<noteq> {} \<longrightarrow> v \<notin> m_one_of opt \<longrightarrow>
      m_one_of_err (fst (set_value invalid_choice_error_float cb opt v flag mem)) = '''')"
    by (simp add: set_value_err invalid_choice_error_float_def invalid_choice_error_U_def)
  have sv: "(\<forall>(opt :: (string list, 'z) typed_option_scheme) v cb flag mem.
      m_one_of opt \<noteq> {} \<longrightarrow> v \<notin> m_one_of opt \<longrightarrow>
      m_one_of_err (fst (set_value invalid_choice_error_string_vector cb opt v flag mem)) = '''')"
    by (simp add: set_value_err invalid_choice_error_string_vector_def invalid_choice_error_U_def)
  from s i32 i64 u32 u64 b f sv show ?thesis by blast
qed

theorem invalid_choice_error_message_witness:
  "m_one_of (set_one_of (set_default_value (new_typed_option 0 ''batch-size'' :: int32_t typed_option) 32) {16, 32, 64}) \<noteq> {} \<and>
   (100 :: int32_t) \<notin> m_one_of (set_one_of (set_default_value (new_typed_option 0 ''batch-size'' :: int32_t typed_option) 32) {16, 32, 64}) \<and>
   (let err = m_one_of_err (fst (set_value invalid_choice_error_int32 value_set_callback
        (set_one_of (set_default_value (new_typed_option 0 ''batch-size'') 32) {16, 32, 64})
        100 False (\<lambda>_. 0)))
    in err \<noteq> '''' \<and> sublist ''batch-size'' err \<and> sublist ''{16, 32, 64}'' err)"
proof -
  let ?opt = "set_one_of (set_default_value (new_typed_option 0 ''batch-size'' :: int32_t typed_option) 32) {16, 32, 64}"
  have h1: "m_one_of ?opt \<noteq> {}" by (simp add: set_one_of_def)
  have h2: "(100 :: int32_t) \<notin> m_one_of ?opt" by (simp add: set_one_of_def)
  have n: "m_name ?opt = ''batch-size''"
    by (simp add: set_one_of_def set_default_value_def new_typed_option_def)
  have c: "''{'' @ join (map to_string_int32 (in_order_signed (m_one_of ?opt))) '', '' @ ''}''
      = ''{16, 32, 64}''"
    by (simp add: set_one_of_def in_order_signed_def to_string_int32_def to_string_int_def)
  have "let err = m_one_of_err (fst (set_value invalid_choice_error_int32 value_set_callback ?opt 100 False (\<lambda>_. 0)))
       in err \<noteq> '''' \<and> sublist (m_name ?opt) err \<and>
          sublist (''{'' @ join (map to_string_int32 (in_order_signed (m_one_of ?opt))) '', '' @ ''}'') err"
    by (rule invalid_choice_error_message [THEN conjunct2, THEN conjunct1, rule_format, OF h1 h2])
  then show ?thesis using h1 h2 unfolding n c by simp
qed

subsection \<open>Runs of assignments to a located option\<close>

text \<open>A call without the flag never touches the memory, whatever came before it.\<close>

lemma unflagged_calls_leave_memory:
  "snd (value_calls ice opt (map (\<lambda>v. (v, False)) vs) mem) = mem"
proof (induction vs arbitrary: opt)
  case Nil
  then show ?case by simp
next
  case (Cons v vs)
  have "snd (set_value ice value_set_callback_with_location opt v False mem) = mem"
    by (simp add: set_value_memory value_set_callback_with_location_def split: option.splits)
  with Cons.IH show ?case
    by (simp split: prod.splits) (metis snd_conv)
qed

text \<open>\<^bold>\<open>C2\<close>: the external variable of a located option is to be written at most once, with
  the first value supplied; the comment above the class gives this as its contract. The
  hook keeps no record of an earlier write. For an option bound to address 7 in a memory
  of zeros: after \<^verbatim>\<open>value(5, true)\<close> the variable holds 5; after \<^verbatim>\<open>value(5, true)\<close> and
  \<^verbatim>\<open>value(9, true)\<close> it holds 9, so the second call wrote it again; after
  \<^verbatim>\<open>value(5, false)\<close> and \<^verbatim>\<open>value(9, true)\<close> it holds 9, the second value supplied.\<close>

theorem location_written_again_by_second_flagged_call:
  "snd (value_calls invalid_choice_error_uint32
          (new_typed_option_with_location 0 ''passes'' 7 :: uint32_t typed_option_with_location)
          [(5, True)] (\<lambda>_. 0)) 7 = 5 \<and>
   snd (value_calls invalid_choice_error_uint32
          (new_typed_option_with_location 0 ''passes'' 7 :: uint32_t typed_option_with_location)
          [(5, True), (9, True)] (\<lambda>_. 0)) 7 = 9 \<and>
   snd (value_calls invalid_choice_error_uint32
          (new_typed_option_with_location 0 ''passes'' 7 :: uint32_t typed_option_with_location)
          [(5, False), (9, True)] (\<lambda>_. 0)) 7 = 9"
  by (simp add: set_value_def Let_def value_set_callback_with_location_def
      new_typed_option_with_location_def)

end
